theory Spec2Isabelle
  imports Complex_Main
begin

section \<open>The de Koker--Stixrude solid equation of state (burnman/eos/dks\_solid.py)\<close>

text \<open>
  A shallow embedding of the class \<open>DKS_S\<close>. Every method is a function returning
  \<open>error + value\<close>: \<open>Inl\<close> is the exception the Python raises, \<open>Inr\<close> the value it
  returns. Sub-expressions are evaluated left to right, as Python does, so the first
  exception of the source is the one the model returns.

  Numbers. The scalar arguments (pressure, temperature, volume) and the values stored in
  \<open>params\<close> are Python floats; they are modelled as (finite) reals, and arithmetic on
  finite values is exact real arithmetic: rounding and overflow are not modelled. What the
  model does keep is where the source leaves the reals:
  \<^item> \<open>a / b\<close> on two Python floats raises \<open>ZeroDivisionError\<close> when \<open>b\<close> is zero;
  \<^item> \<open>np.power\<close> and \<open>np.log\<close> return numpy scalars, and outside their real domain they
    return \<open>nan\<close> or an infinity (with a warning, no exception). Such a result is the
    value \<open>NonFin\<close>; it is absorbing for \<open>+\<close>, \<open>-\<close>, \<open>*\<close> and as a numerator, which are
    the only places where the source uses it;
  \<^item> a numpy scalar divided by a Python float zero is an infinity or \<open>nan\<close>, not an
    exception.
\<close>

subsection \<open>Exceptions and results\<close>

datatype error =
    KeyError string
  | ZeroDivisionError
  | ValueError
  | RuntimeError
  | Exception string

text \<open>
  \<open>Exception msg\<close> is an instance of the root class \<open>Exception\<close> itself, what
  \<open>raise Exception(msg)\<close> makes. The other constructors are its builtin subclasses. An
  error has a kind of its own when its class is a proper subclass of \<open>Exception\<close>: then an
  \<open>except\<close> clause can select it without selecting every other error.
\<close>

fun distinct_kind :: "error \<Rightarrow> bool" where
  "distinct_kind (Exception msg) = False"
| "distinct_kind (KeyError k) = True"
| "distinct_kind ZeroDivisionError = True"
| "distinct_kind ValueError = True"
| "distinct_kind RuntimeError = True"

definition ebind :: "error + 'a \<Rightarrow> ('a \<Rightarrow> error + 'b) \<Rightarrow> error + 'b" where
  "ebind m f = (case m of Inl e \<Rightarrow> Inl e | Inr x \<Rightarrow> f x)"

subsection \<open>Floating-point values\<close>

datatype pyfloat = Fin real | NonFin

instantiation pyfloat :: "{plus, minus, times}"
begin

fun plus_pyfloat :: "pyfloat \<Rightarrow> pyfloat \<Rightarrow> pyfloat" where
  "plus_pyfloat (Fin a) (Fin b) = Fin (a + b)"
| "plus_pyfloat NonFin y = NonFin"
| "plus_pyfloat x NonFin = NonFin"

fun minus_pyfloat :: "pyfloat \<Rightarrow> pyfloat \<Rightarrow> pyfloat" where
  "minus_pyfloat (Fin a) (Fin b) = Fin (a - b)"
| "minus_pyfloat NonFin y = NonFin"
| "minus_pyfloat x NonFin = NonFin"

fun times_pyfloat :: "pyfloat \<Rightarrow> pyfloat \<Rightarrow> pyfloat" where
  "times_pyfloat (Fin a) (Fin b) = Fin (a * b)"
| "times_pyfloat NonFin y = NonFin"
| "times_pyfloat x NonFin = NonFin"

instance ..

end

text \<open>\<open>a / b\<close> on two Python floats.\<close>

definition py_truediv :: "real \<Rightarrow> real \<Rightarrow> error + real" where
  "py_truediv a b = (if b = 0 then Inl ZeroDivisionError else Inr (a / b))"

text \<open>\<open>a / b\<close> where \<open>a\<close> is a numpy scalar and \<open>b\<close> a Python float.\<close>

fun np_truediv :: "pyfloat \<Rightarrow> real \<Rightarrow> pyfloat" where
  "np_truediv (Fin a) b = (if b = 0 then NonFin else Fin (a / b))"
| "np_truediv NonFin b = NonFin"

text \<open>
  \<open>np.power(x, y)\<close> on finite floats: the C \<open>pow\<close>. A zero base with a negative exponent
  is an infinity; a negative base is defined for integral exponents only, \<open>nan\<close>
  otherwise.
\<close>

definition np_power :: "real \<Rightarrow> real \<Rightarrow> pyfloat" where
  "np_power x y =
     (if 0 < x then Fin (x powr y)
      else if x = 0 then (if 0 < y then Fin 0 else if y = 0 then Fin 1 else NonFin)
      else if real_of_int \<lfloor>y\<rfloor> = y then Fin (x powi \<lfloor>y\<rfloor>)
      else NonFin)"

text \<open>
  \<open>np.power\<close> with a numpy scalar as base and a positive exponent: \<open>nan\<close> stays \<open>nan\<close>
  and an infinity stays infinite. The source's only such call has the exponent \<open>2.5\<close>.
\<close>

fun np_power_fl :: "pyfloat \<Rightarrow> real \<Rightarrow> pyfloat" where
  "np_power_fl (Fin x) y = np_power x y"
| "np_power_fl NonFin y = NonFin"

text \<open>\<open>np.log(x)\<close>: minus infinity at zero, \<open>nan\<close> below.\<close>

definition np_log :: "real \<Rightarrow> pyfloat" where
  "np_log x = (if 0 < x then Fin (ln x) else NonFin)"

subsection \<open>The parameter dictionary\<close>

type_synonym params = "string \<rightharpoonup> real"

text \<open>\<open>params[k]\<close>: a missing key raises \<open>KeyError(k)\<close>.\<close>

definition getitem :: "params \<Rightarrow> string \<Rightarrow> error + real" where
  "getitem params k = (case params k of None \<Rightarrow> Inl (KeyError k) | Some v \<Rightarrow> Inr v)"

subsection \<open>The private helpers\<close>

text \<open>\<open>__finite_strain\<close>: \<open>(1./2.)*(np.power(params['V_0']/volume, 2./3.) - 1.0)\<close>.\<close>

definition finite_strain :: "real \<Rightarrow> real \<Rightarrow> params \<Rightarrow> error + pyfloat" where
  "finite_strain temperature volume params =
     ebind (getitem params ''V_0'') (\<lambda>V_0.
     ebind (py_truediv V_0 volume) (\<lambda>x.
     Inr (Fin (1 / 2) * (np_power x (2 / 3) - Fin 1))))"

text \<open>
  \<open>__int_aKt_dV\<close>:
  \<open>params['Cv']*params['grueneisen_0']/params['q_0']*(np.power(volume/params['V_0'], params['q_0']) - 1.)\<close>.
\<close>

definition int_aKt_dV :: "real \<Rightarrow> real \<Rightarrow> params \<Rightarrow> error + pyfloat" where
  "int_aKt_dV temperature volume params =
     ebind (getitem params ''Cv'') (\<lambda>Cv.
     ebind (getitem params ''grueneisen_0'') (\<lambda>grueneisen_0.
     ebind (getitem params ''q_0'') (\<lambda>q_0.
     ebind (py_truediv (Cv * grueneisen_0) q_0) (\<lambda>c.
     ebind (getitem params ''V_0'') (\<lambda>V_0.
     ebind (py_truediv volume V_0) (\<lambda>x.
     ebind (getitem params ''q_0'') (\<lambda>q.
     Inr (Fin c * (np_power x q - Fin 1)))))))))"

definition F_cmp :: "real \<Rightarrow> real \<Rightarrow> params \<Rightarrow> error + pyfloat" where
  "F_cmp temperature volume params =
     ebind (finite_strain temperature volume params) (\<lambda>f.
     ebind (getitem params ''K_0'') (\<lambda>K_0.
     ebind (getitem params ''Kprime_0'') (\<lambda>Kprime_0.
     ebind (getitem params ''Kdprime_0'') (\<lambda>Kdprime_0.
     let a3 = 3 * (Kprime_0 - 4);
         a4 = 9 * (K_0 * Kdprime_0 + Kprime_0 * (Kprime_0 - 7)) + 143
     in
     ebind (getitem params ''V_0'') (\<lambda>V_0.
     Inr (Fin (9 * K_0 * V_0) *
          (np_truediv (f * f) 2
           + np_truediv (Fin a3 * f * f * f) 6
           + np_truediv (Fin a4 * f * f * f * f) 24)))))))"

definition F_th :: "real \<Rightarrow> real \<Rightarrow> params \<Rightarrow> error + pyfloat" where
  "F_th temperature volume params =
     ebind (getitem params ''S_0'') (\<lambda>S_0.
     ebind (getitem params ''T_0'') (\<lambda>T_0.
     ebind (getitem params ''Cv'') (\<lambda>Cv.
     ebind (getitem params ''T_0'') (\<lambda>T_0'.
     ebind (py_truediv temperature T_0') (\<lambda>r.
     ebind (getitem params ''T_0'') (\<lambda>T_0''.
     ebind (int_aKt_dV temperature volume params) (\<lambda>I.
     ebind (getitem params ''T_0'') (\<lambda>T_0'''.
     Inr (Fin (- S_0 * (temperature - T_0))
          - Fin Cv * (Fin temperature * np_log r - Fin (temperature - T_0''))
          - I * Fin (temperature - T_0'''))))))))))"

subsection \<open>The public methods\<close>

definition grueneisen_parameter :: "real \<Rightarrow> real \<Rightarrow> real \<Rightarrow> params \<Rightarrow> error + pyfloat" where
  "grueneisen_parameter pressure temperature volume params =
     ebind (getitem params ''grueneisen_0'') (\<lambda>grueneisen_0.
     ebind (getitem params ''V_0'') (\<lambda>V_0.
     ebind (py_truediv volume V_0) (\<lambda>x.
     ebind (getitem params ''q_0'') (\<lambda>q_0.
     Inr (Fin grueneisen_0 * np_power x q_0)))))"

definition pressure :: "real \<Rightarrow> real \<Rightarrow> params \<Rightarrow> error + pyfloat" where
  "pressure temperature volume params =
     ebind (finite_strain temperature volume params) (\<lambda>f.
     ebind (getitem params ''n'') (\<lambda>n.
     ebind (getitem params ''K_0'') (\<lambda>K_0.
     ebind (getitem params ''Kprime_0'') (\<lambda>Kprime_0.
     ebind (getitem params ''Kdprime_0'') (\<lambda>Kdprime_0.
     let a3 = 3 * (Kprime_0 - 4);
         a4 = 9 * (K_0 * Kdprime_0 + Kprime_0 * (Kprime_0 - 7)) + 143
     in
     ebind (getitem params ''K_0'') (\<lambda>K_0'.
     ebind (getitem params ''Cv'') (\<lambda>Cv.
     ebind (getitem params ''T_0'') (\<lambda>T_0.
     ebind (grueneisen_parameter 0 temperature volume params) (\<lambda>g.
     Inr (Fin (3 * K_0') * np_power_fl (Fin 1 + Fin 2 * f) (5 / 2)
            * (f + np_truediv (Fin a3 * f * f) 2 + Fin (a4 / 6) * f * f * f)
          + np_truediv (Fin (Cv * (temperature - T_0)) * g) volume))))))))))"

text \<open>
  \<open>volume\<close> calls \<open>bracket\<close> (burnman/tools.py) and \<open>scipy.optimize.brentq\<close>. Neither is
  part of this file's source, so both are parameters of the model: \<open>bracket fn x0 dx\<close>
  returns the two ends of an interval or raises, \<open>brentq fn a b\<close> returns a float or
  raises. Each receives the residual with its \<open>args\<close> already applied.
\<close>

type_synonym bracket_fn = "(real \<Rightarrow> error + pyfloat) \<Rightarrow> real \<Rightarrow> real \<Rightarrow> error + real \<times> real"
type_synonym brentq_fn = "(real \<Rightarrow> error + pyfloat) \<Rightarrow> real \<Rightarrow> real \<Rightarrow> error + real"

text \<open>\<open>_delta_pressure = lambda x, pressure, temperature, params: pressure - self.pressure(temperature, x, params)\<close>.\<close>

definition delta_pressure :: "real \<Rightarrow> real \<Rightarrow> real \<Rightarrow> params \<Rightarrow> error + pyfloat" where
  "delta_pressure x pressure' temperature params =
     ebind (pressure temperature x params) (\<lambda>p. Inr (Fin pressure' - p))"

definition cannot_find_volume :: string where
  "cannot_find_volume =
     ''Cannot find a volume, perhaps you are outside of the range of validity for the equation of state?''"

definition volume :: "bracket_fn \<Rightarrow> brentq_fn \<Rightarrow> real \<Rightarrow> real \<Rightarrow> params \<Rightarrow> error + real" where
  "volume bracket brentq pressure' temperature params =
     ebind (getitem params ''V_0'') (\<lambda>V_0.
     ebind (getitem params ''V_0'') (\<lambda>V_0'.
     ebind (case bracket (\<lambda>x. delta_pressure x pressure' temperature params) V_0 (1 / 100 * V_0') of
              Inl ValueError \<Rightarrow> Inl (Exception cannot_find_volume)
            | Inl e \<Rightarrow> Inl e
            | Inr sol \<Rightarrow> Inr sol) (\<lambda>sol.
     brentq (\<lambda>x. delta_pressure x pressure' temperature params) (fst sol) (snd sol))))"

definition isothermal_bulk_modulus :: "real \<Rightarrow> real \<Rightarrow> real \<Rightarrow> params \<Rightarrow> error + pyfloat" where
  "isothermal_bulk_modulus pressure' temperature volume' params = Inr (Fin 0)"

definition adiabatic_bulk_modulus :: "real \<Rightarrow> real \<Rightarrow> real \<Rightarrow> params \<Rightarrow> error + pyfloat" where
  "adiabatic_bulk_modulus pressure' temperature volume' params = Inr (Fin 0)"

definition shear_modulus :: "real \<Rightarrow> real \<Rightarrow> real \<Rightarrow> params \<Rightarrow> error + pyfloat" where
  "shear_modulus pressure' temperature volume' params = Inr (Fin 0)"

definition heat_capacity_v :: "real \<Rightarrow> real \<Rightarrow> real \<Rightarrow> params \<Rightarrow> error + pyfloat" where
  "heat_capacity_v pressure' temperature volume' params =
     ebind (getitem params ''Cv'') (\<lambda>Cv. Inr (Fin Cv))"

definition heat_capacity_p :: "real \<Rightarrow> real \<Rightarrow> real \<Rightarrow> params \<Rightarrow> error + pyfloat" where
  "heat_capacity_p pressure' temperature volume' params = Inr (Fin 0)"

definition thermal_expansivity :: "real \<Rightarrow> real \<Rightarrow> real \<Rightarrow> params \<Rightarrow> error + pyfloat" where
  "thermal_expansivity pressure' temperature volume' params = Inr (Fin 0)"

definition helmholtz_free_energy :: "real \<Rightarrow> real \<Rightarrow> real \<Rightarrow> params \<Rightarrow> error + pyfloat" where
  "helmholtz_free_energy pressure' temperature volume' params =
     ebind (getitem params ''E_0'') (\<lambda>E_0.
     ebind (getitem params ''T_0'') (\<lambda>T_0.
     ebind (getitem params ''S_0'') (\<lambda>S_0.
     ebind (F_cmp temperature volume' params) (\<lambda>Fc.
     ebind (F_th temperature volume' params) (\<lambda>Ft.
     Inr (Fin (E_0 - T_0 * S_0) + Fc + Ft))))))"

definition entropy :: "real \<Rightarrow> real \<Rightarrow> real \<Rightarrow> params \<Rightarrow> error + pyfloat" where
  "entropy pressure' temperature volume' params =
     ebind (getitem params ''S_0'') (\<lambda>S_0.
     ebind (int_aKt_dV temperature volume' params) (\<lambda>I.
     ebind (getitem params ''Cv'') (\<lambda>Cv.
     ebind (getitem params ''T_0'') (\<lambda>T_0.
     ebind (py_truediv temperature T_0) (\<lambda>r.
     Inr (Fin S_0 + I + Fin Cv * np_log r))))))"

definition gibbs_free_energy :: "real \<Rightarrow> real \<Rightarrow> real \<Rightarrow> params \<Rightarrow> error + pyfloat" where
  "gibbs_free_energy pressure' temperature volume' params =
     ebind (helmholtz_free_energy pressure' temperature volume' params) (\<lambda>F.
     Inr (F + Fin (pressure' * volume')))"

definition enthalpy ::
  "bracket_fn \<Rightarrow> brentq_fn \<Rightarrow> real \<Rightarrow> real \<Rightarrow> real \<Rightarrow> params \<Rightarrow> error + pyfloat" where
  "enthalpy bracket brentq pressure' temperature volume' params =
     ebind (helmholtz_free_energy pressure' temperature volume' params) (\<lambda>F.
     ebind (entropy pressure' temperature volume' params) (\<lambda>S.
     ebind (volume bracket brentq pressure' temperature params) (\<lambda>v.
     Inr (F + Fin temperature * S + Fin (pressure' * v)))))"

definition internal_energy :: "real \<Rightarrow> real \<Rightarrow> real \<Rightarrow> params \<Rightarrow> error + pyfloat" where
  "internal_energy pressure' temperature volume' params =
     ebind (helmholtz_free_energy pressure' temperature volume' params) (\<lambda>F.
     ebind (entropy pressure' temperature volume' params) (\<lambda>S.
     Inr (F + Fin temperature * S)))"

subsection \<open>Parameter validation\<close>

definition expected_keys :: "string list" where
  "expected_keys =
     [''V_0'', ''T_0'', ''E_0'', ''S_0'', ''K_0'', ''Kprime_0'', ''Kdprime_0'', ''n'', ''Cv'',
      ''grueneisen_0'', ''q_0'']"

definition missing_parameter :: "string \<Rightarrow> error" where
  "missing_parameter k = KeyError (''params object missing parameter : '' @ k)"

text \<open>The loop \<open>for k in expected_keys: if k not in params: raise KeyError(...)\<close>.\<close>

fun check_keys :: "string list \<Rightarrow> params \<Rightarrow> error + unit" where
  "check_keys [] params = Inr ()"
| "check_keys (k # ks) params =
     (if params k = None then Inl (missing_parameter k) else check_keys ks params)"

definition validate_parameters :: "params \<Rightarrow> error + unit" where
  "validate_parameters params = check_keys expected_keys params"

subsection \<open>The closed forms of the specification\<close>

text \<open>
  The formulas of the specification, over the reals, written from its words. \<open>param\<close>
  reads a field of a parameter set that has it.
\<close>

definition param :: "params \<Rightarrow> string \<Rightarrow> real" where
  "param params k = the (params k)"

definition spec_finite_strain :: "real \<Rightarrow> params \<Rightarrow> real" where
  "spec_finite_strain V params = 1 / 2 * ((param params ''V_0'' / V) powr (2 / 3) - 1)"

definition spec_gamma :: "real \<Rightarrow> params \<Rightarrow> real" where
  "spec_gamma V params =
     param params ''grueneisen_0'' * (V / param params ''V_0'') powr param params ''q_0''"

definition spec_a3 :: "params \<Rightarrow> real" where
  "spec_a3 params = 3 * (param params ''Kprime_0'' - 4)"

definition spec_a4 :: "params \<Rightarrow> real" where
  "spec_a4 params =
     9 * (param params ''K_0'' * param params ''Kdprime_0''
          + param params ''Kprime_0'' * (param params ''Kprime_0'' - 7)) + 143"

definition spec_pressure :: "real \<Rightarrow> real \<Rightarrow> params \<Rightarrow> real" where
  "spec_pressure T V params =
     (let f = spec_finite_strain V params in
      3 * param params ''K_0'' * (1 + 2 * f) powr (5 / 2)
        * (f + spec_a3 params * f ^ 2 / 2 + spec_a4 params * f ^ 3 / 6)
      + param params ''Cv'' * (T - param params ''T_0'') * spec_gamma V params / V)"

definition spec_I :: "real \<Rightarrow> params \<Rightarrow> real" where
  "spec_I V params =
     param params ''Cv'' * param params ''grueneisen_0'' / param params ''q_0''
       * ((V / param params ''V_0'') powr param params ''q_0'' - 1)"

definition spec_F_cmp :: "real \<Rightarrow> params \<Rightarrow> real" where
  "spec_F_cmp V params =
     (let f = spec_finite_strain V params in
      9 * param params ''K_0'' * param params ''V_0''
        * (f ^ 2 / 2 + spec_a3 params * f ^ 3 / 6 + spec_a4 params * f ^ 4 / 24))"

definition spec_F_th :: "real \<Rightarrow> real \<Rightarrow> params \<Rightarrow> real" where
  "spec_F_th T V params =
     - param params ''S_0'' * (T - param params ''T_0'')
     - param params ''Cv'' * (T * ln (T / param params ''T_0'') - (T - param params ''T_0''))
     - spec_I V params * (T - param params ''T_0'')"

subsection \<open>Concrete inputs\<close>

text \<open>
  \<open>example_params\<close> is the parameter set of the specification's concrete scenario.
  \<open>soft_params\<close> has \<open>K_0 = 0\<close>, so that its compressive energy vanishes at every
  volume.
\<close>

definition example_params :: params where
  "example_params =
     map_of [(''V_0'', 1 / 100000), (''T_0'', 300), (''E_0'', 0), (''S_0'', 0),
       (''K_0'', 250000000000), (''Kprime_0'', 4), (''Kdprime_0'', - (1 / 50000000000)),
       (''n'', 1), (''Cv'', 100), (''grueneisen_0'', 3 / 2), (''q_0'', 1)]"

definition soft_params :: params where
  "soft_params =
     map_of [(''V_0'', 1), (''T_0'', 300), (''E_0'', 0), (''S_0'', 0),
       (''K_0'', 0), (''Kprime_0'', 4), (''Kdprime_0'', 0),
       (''n'', 1), (''Cv'', 100), (''grueneisen_0'', 3 / 2), (''q_0'', 1)]"

text \<open>
  Stand-ins for the two routines that \<open>volume\<close> is given: a bracketing search that
  reports no sign change, one that returns the interval of its first step, and a root
  finder that returns the middle of the interval it is given.
\<close>

definition bracket_no_sign_change :: bracket_fn where
  "bracket_no_sign_change fn x0 dx = Inl ValueError"

definition bracket_around :: bracket_fn where
  "bracket_around fn x0 dx = Inr (x0 - dx, x0 + dx)"

definition brentq_midpoint :: brentq_fn where
  "brentq_midpoint fn a b = Inr ((a + b) / 2)"

section \<open>Properties\<close>

subsection \<open>Auxiliary facts\<close>

lemma ebind_Inl [simp]: "ebind (Inl e) f = Inl e"
  by (simp add: ebind_def)

lemma ebind_Inr [simp]: "ebind (Inr x) f = f x"
  by (simp add: ebind_def)

lemma check_keys_ok: "check_keys ks params = Inr () \<longleftrightarrow> set ks \<subseteq> dom params"
  by (induction ks) auto

lemma valid_getitem:
  assumes "validate_parameters params = Inr ()" and "k \<in> set expected_keys"
  shows "getitem params k = Inr (param params k)"
proof -
  from assms have "k \<in> dom params"
    unfolding validate_parameters_def check_keys_ok by blast
  then show ?thesis
    by (auto simp: getitem_def param_def)
qed

lemma valid_fields:
  assumes v: "validate_parameters params = Inr ()"
  shows "getitem params ''V_0'' = Inr (param params ''V_0'')"
    and "getitem params ''T_0'' = Inr (param params ''T_0'')"
    and "getitem params ''E_0'' = Inr (param params ''E_0'')"
    and "getitem params ''S_0'' = Inr (param params ''S_0'')"
    and "getitem params ''K_0'' = Inr (param params ''K_0'')"
    and "getitem params ''Kprime_0'' = Inr (param params ''Kprime_0'')"
    and "getitem params ''Kdprime_0'' = Inr (param params ''Kdprime_0'')"
    and "getitem params ''n'' = Inr (param params ''n'')"
    and "getitem params ''Cv'' = Inr (param params ''Cv'')"
    and "getitem params ''grueneisen_0'' = Inr (param params ''grueneisen_0'')"
    and "getitem params ''q_0'' = Inr (param params ''q_0'')"
  by (rule valid_getitem [OF v], simp add: expected_keys_def)+

lemma finite_strain_pos:
  assumes "validate_parameters params = Inr ()" and "0 < param params ''V_0''" and "0 < V"
  shows "finite_strain T V params = Inr (Fin (spec_finite_strain V params))"
  using assms(2,3)
  by (simp add: finite_strain_def valid_fields [OF assms(1)] py_truediv_def np_power_def
      spec_finite_strain_def)

lemma grueneisen_parameter_pos:
  assumes "validate_parameters params = Inr ()" and "0 < V / param params ''V_0''"
  shows "grueneisen_parameter P T V params = Inr (Fin (spec_gamma V params))"
proof -
  from assms(2) have "param params ''V_0'' \<noteq> 0" by auto
  with assms(2) show ?thesis
    by (simp add: grueneisen_parameter_def valid_fields [OF assms(1)] py_truediv_def np_power_def
      spec_gamma_def)
qed

lemma one_plus_two_strain:
  "1 + 2 * spec_finite_strain V params = (param params ''V_0'' / V) powr (2 / 3)"
  by (simp add: spec_finite_strain_def diff_divide_distrib)

lemma example_params_valid: "validate_parameters example_params = Inr ()"
  by (simp add: validate_parameters_def expected_keys_def example_params_def)

lemma example_params_values:
  "param example_params ''V_0'' = 1 / 100000"
  "param example_params ''T_0'' = 300"
  "param example_params ''E_0'' = 0"
  "param example_params ''S_0'' = 0"
  "param example_params ''K_0'' = 250000000000"
  "param example_params ''Kprime_0'' = 4"
  "param example_params ''Kdprime_0'' = - (1 / 50000000000)"
  "param example_params ''n'' = 1"
  "param example_params ''Cv'' = 100"
  "param example_params ''grueneisen_0'' = 3 / 2"
  "param example_params ''q_0'' = 1"
  by (simp_all add: param_def example_params_def)

subsection \<open>The unsupported properties\<close>

text \<open>
  Claim C8. For every pressure, temperature, volume and parameter dictionary (also one
  with missing keys), \<open>isothermal_bulk_modulus\<close>, \<open>adiabatic_bulk_modulus\<close>,
  \<open>shear_modulus\<close>, \<open>heat_capacity_p\<close> and \<open>thermal_expansivity\<close> return the float
  \<open>0\<close>; none of them raises.
\<close>

theorem unsupported_properties_zero:
  "isothermal_bulk_modulus P T V params = Inr (Fin 0)
   \<and> adiabatic_bulk_modulus P T V params = Inr (Fin 0)
   \<and> shear_modulus P T V params = Inr (Fin 0)
   \<and> heat_capacity_p P T V params = Inr (Fin 0)
   \<and> thermal_expansivity P T V params = Inr (Fin 0)"
  by (simp add: isothermal_bulk_modulus_def adiabatic_bulk_modulus_def shear_modulus_def
      heat_capacity_p_def thermal_expansivity_def)

subsection \<open>Validation of the parameter dictionary\<close>

lemma check_keys_first_missing:
  "set ks \<subseteq> dom params \<Longrightarrow> params k = None \<Longrightarrow>
   check_keys (ks @ k # ks') params = Inl (missing_parameter k)"
  by (induction ks) auto

lemma check_keys_some_missing:
  "\<not> set ks \<subseteq> dom params \<Longrightarrow>
   \<exists>k \<in> set ks. params k = None \<and> check_keys ks params = Inl (missing_parameter k)"
  by (induction ks) auto

text \<open>
  Claim C4. \<open>validate_parameters\<close> checks the presence of the eleven expected keys and
  nothing else. When all eleven are present it returns, whatever their values. When one
  is missing it raises a \<open>KeyError\<close> whose message names a missing key: the first
  missing one in the order of \<open>expected_keys\<close>. A dictionary that lacks \<open>K_0\<close> and has
  the four keys checked before it gets the error naming \<open>K_0\<close>.
\<close>

theorem validate_parameters_presence:
  "(set expected_keys \<subseteq> dom params \<longrightarrow> validate_parameters params = Inr ())
   \<and> (\<not> set expected_keys \<subseteq> dom params \<longrightarrow>
        (\<exists>k \<in> set expected_keys. k \<notin> dom params
           \<and> validate_parameters params
               = Inl (KeyError (''params object missing parameter : '' @ k))))
   \<and> (\<forall>ks k ks'. expected_keys = ks @ k # ks' \<and> set ks \<subseteq> dom params \<and> k \<notin> dom params \<longrightarrow>
        validate_parameters params
          = Inl (KeyError (''params object missing parameter : '' @ k)))
   \<and> ({''V_0'', ''T_0'', ''E_0'', ''S_0''} \<subseteq> dom params \<and> ''K_0'' \<notin> dom params \<longrightarrow>
        validate_parameters params = Inl (KeyError ''params object missing parameter : K_0''))
   \<and> length expected_keys = 11 \<and> distinct expected_keys"
proof (intro conjI impI allI)
  assume "set expected_keys \<subseteq> dom params"
  then show "validate_parameters params = Inr ()"
    by (simp add: validate_parameters_def check_keys_ok)
next
  assume "\<not> set expected_keys \<subseteq> dom params"
  from check_keys_some_missing [OF this]
  show "\<exists>k \<in> set expected_keys. k \<notin> dom params
           \<and> validate_parameters params
               = Inl (KeyError (''params object missing parameter : '' @ k))"
    by (auto simp: validate_parameters_def missing_parameter_def)
next
  fix ks k ks'
  assume "expected_keys = ks @ k # ks' \<and> set ks \<subseteq> dom params \<and> k \<notin> dom params"
  then show "validate_parameters params
          = Inl (KeyError (''params object missing parameter : '' @ k))"
    using check_keys_first_missing [of ks params k ks']
    by (auto simp: validate_parameters_def missing_parameter_def)
next
  assume "{''V_0'', ''T_0'', ''E_0'', ''S_0''} \<subseteq> dom params \<and> ''K_0'' \<notin> dom params"
  then show "validate_parameters params = Inl (KeyError ''params object missing parameter : K_0'')"
    by (auto simp: validate_parameters_def expected_keys_def missing_parameter_def)
next
  show "length expected_keys = 11" by (simp add: expected_keys_def)
  show "distinct expected_keys" by (simp add: expected_keys_def)
qed

theorem validate_parameters_presence_witness:
  "validate_parameters example_params = Inr ()
   \<and> validate_parameters (example_params(''K_0'' := None))
       = Inl (KeyError ''params object missing parameter : K_0'')
   \<and> validate_parameters Map.empty = Inl (KeyError ''params object missing parameter : V_0'')
   \<and> (\<exists>k \<in> set expected_keys.
         validate_parameters (example_params(''q_0'' := None))
           = Inl (KeyError (''params object missing parameter : '' @ k)))"
proof -
  have a: "set expected_keys \<subseteq> dom example_params"
    by (simp add: expected_keys_def example_params_def)
  have b: "{''V_0'', ''T_0'', ''E_0'', ''S_0''} \<subseteq> dom (example_params(''K_0'' := None))
      \<and> ''K_0'' \<notin> dom (example_params(''K_0'' := None))"
    by (simp add: example_params_def)
  have c: "expected_keys = [] @ ''V_0'' # tl expected_keys \<and> set [] \<subseteq> dom (Map.empty :: params)
      \<and> ''V_0'' \<notin> dom (Map.empty :: params)"
    by (simp add: expected_keys_def)
  have d: "\<not> set expected_keys \<subseteq> dom (example_params(''q_0'' := None))"
    by (simp add: expected_keys_def)
  have "validate_parameters example_params = Inr ()"
    using a validate_parameters_presence [of example_params, THEN conjunct1] by (rule rev_mp)
  moreover have "validate_parameters (example_params(''K_0'' := None))
       = Inl (KeyError ''params object missing parameter : K_0'')"
    using b validate_parameters_presence [of "example_params(''K_0'' := None)",
        THEN conjunct2, THEN conjunct2, THEN conjunct2, THEN conjunct1]
    by (rule rev_mp)
  moreover have "validate_parameters Map.empty
       = Inl (KeyError ''params object missing parameter : V_0'')"
    using c validate_parameters_presence [of Map.empty,
        THEN conjunct2, THEN conjunct2, THEN conjunct1, THEN spec, THEN spec, THEN spec,
        of "[]" "''V_0''" "tl expected_keys"]
    by simp
  moreover have "\<exists>k \<in> set expected_keys.
         validate_parameters (example_params(''q_0'' := None))
           = Inl (KeyError (''params object missing parameter : '' @ k))"
    using d validate_parameters_presence [of "example_params(''q_0'' := None)",
        THEN conjunct2, THEN conjunct1]
    by blast
  ultimately show ?thesis by simp
qed

subsection \<open>The Grueneisen parameter\<close>

text \<open>
  Claim C9. \<open>grueneisen_parameter\<close> does not depend on its pressure and temperature
  arguments: two calls with the same volume and parameters give the same result. For a
  parameter set with the eleven fields and a volume with \<open>V / V_0 > 0\<close> the result is
  \<open>grueneisen_0 * (V / V_0) ^ q_0\<close>, and at \<open>V = V_0\<close> (a volume is not zero) it is
  \<open>grueneisen_0\<close> exactly.
\<close>

theorem grueneisen_parameter_volume_only:
  "grueneisen_parameter P1 T1 V params = grueneisen_parameter P2 T2 V params
   \<and> (validate_parameters params = Inr () \<and> 0 < V / param params ''V_0'' \<longrightarrow>
        grueneisen_parameter P1 T1 V params
          = Inr (Fin (param params ''grueneisen_0''
                        * (V / param params ''V_0'') powr param params ''q_0'')))
   \<and> (validate_parameters params = Inr () \<and> V = param params ''V_0'' \<and> V \<noteq> 0 \<longrightarrow>
        grueneisen_parameter P1 T1 V params = Inr (Fin (param params ''grueneisen_0'')))"
proof (intro conjI impI)
  show "grueneisen_parameter P1 T1 V params = grueneisen_parameter P2 T2 V params"
    by (simp add: grueneisen_parameter_def)
next
  assume a: "validate_parameters params = Inr () \<and> 0 < V / param params ''V_0''"
  then show "grueneisen_parameter P1 T1 V params
          = Inr (Fin (param params ''grueneisen_0''
                        * (V / param params ''V_0'') powr param params ''q_0''))"
    using grueneisen_parameter_pos [of params V P1 T1] by (simp add: spec_gamma_def)
next
  assume a: "validate_parameters params = Inr () \<and> V = param params ''V_0'' \<and> V \<noteq> 0"
  then have v: "validate_parameters params = Inr ()" by simp
  from a show "grueneisen_parameter P1 T1 V params = Inr (Fin (param params ''grueneisen_0''))"
    by (simp add: grueneisen_parameter_def valid_fields [OF v] py_truediv_def np_power_def)
qed

theorem grueneisen_parameter_volume_only_witness:
  "grueneisen_parameter 0 300 (1 / 50000) example_params = Inr (Fin (3 / 2 * 2 powr 1))
   \<and> grueneisen_parameter 0 300 (1 / 100000) example_params = Inr (Fin (3 / 2))"
proof -
  have a: "validate_parameters example_params = Inr ()
      \<and> 0 < (1 / 50000 :: real) / param example_params ''V_0''"
    by (simp add: example_params_valid example_params_values)
  have b: "validate_parameters example_params = Inr ()
      \<and> (1 / 100000 :: real) = param example_params ''V_0'' \<and> (1 / 100000 :: real) \<noteq> 0"
    by (simp add: example_params_valid example_params_values)
  have "grueneisen_parameter 0 300 (1 / 50000) example_params = Inr (Fin (3 / 2 * 2 powr 1))"
    using a grueneisen_parameter_volume_only [of 0 300 "1 / 50000" example_params 0 300,
        THEN conjunct2, THEN conjunct1]
    by (simp add: example_params_values)
  moreover have "grueneisen_parameter 0 300 (1 / 100000) example_params = Inr (Fin (3 / 2))"
    using b grueneisen_parameter_volume_only [of 0 300 "1 / 100000" example_params 0 300,
        THEN conjunct2, THEN conjunct2]
    by (simp add: example_params_values)
  ultimately show ?thesis by (rule conjI)
qed

subsection \<open>The thermal-pressure integral\<close>

text \<open>
  Claim C6. \<open>__int_aKt_dV\<close> divides by \<open>q_0\<close> with no test before the division. For a
  parameter set with the eleven fields: at \<open>q_0 = 0\<close> the call ends in the division's
  \<open>ZeroDivisionError\<close> (no limit form, no dedicated error); with \<open>V_0\<close> not zero that
  error arises exactly when \<open>q_0 = 0\<close>; and for \<open>q_0\<close> not zero and \<open>V / V_0 > 0\<close> the
  result is the closed form \<open>Cv * grueneisen_0 / q_0 * ((V / V_0) ^ q_0 - 1)\<close>.
\<close>

theorem int_aKt_dV_requires_q_0:
  "validate_parameters params = Inr () \<longrightarrow>
     (param params ''q_0'' = 0 \<longrightarrow> int_aKt_dV T V params = Inl ZeroDivisionError)
   \<and> (param params ''V_0'' \<noteq> 0 \<longrightarrow>
        (int_aKt_dV T V params = Inl ZeroDivisionError) = (param params ''q_0'' = 0))
   \<and> (param params ''q_0'' \<noteq> 0 \<and> 0 < V / param params ''V_0'' \<longrightarrow>
        int_aKt_dV T V params = Inr (Fin (spec_I V params)))"
proof (intro conjI impI)
  assume v: "validate_parameters params = Inr ()"
  {
    assume "param params ''q_0'' = 0"
    then show "int_aKt_dV T V params = Inl ZeroDivisionError"
      by (simp add: int_aKt_dV_def valid_fields [OF v] py_truediv_def)
  next
    assume "param params ''V_0'' \<noteq> 0"
    then show "(int_aKt_dV T V params = Inl ZeroDivisionError) = (param params ''q_0'' = 0)"
      by (simp add: int_aKt_dV_def valid_fields [OF v] py_truediv_def)
  next
    assume a: "param params ''q_0'' \<noteq> 0 \<and> 0 < V / param params ''V_0''"
    then have "param params ''V_0'' \<noteq> 0" by auto
    with a show "int_aKt_dV T V params = Inr (Fin (spec_I V params))"
      by (simp add: int_aKt_dV_def valid_fields [OF v] py_truediv_def np_power_def spec_I_def)
  }
qed

theorem int_aKt_dV_requires_q_0_witness:
  "int_aKt_dV 300 (1 / 100000) (example_params(''q_0'' \<mapsto> 0)) = Inl ZeroDivisionError
   \<and> int_aKt_dV 300 (1 / 100000) example_params \<noteq> Inl ZeroDivisionError
   \<and> int_aKt_dV 300 (1 / 100000) example_params = Inr (Fin 0)"
proof -
  have v0: "validate_parameters (example_params(''q_0'' \<mapsto> 0)) = Inr ()"
    by (simp add: validate_parameters_def expected_keys_def example_params_def)
  have q0: "param (example_params(''q_0'' \<mapsto> 0)) ''q_0'' = 0"
    by (simp add: param_def)
  have "int_aKt_dV 300 (1 / 100000) (example_params(''q_0'' \<mapsto> 0)) = Inl ZeroDivisionError"
    using q0 int_aKt_dV_requires_q_0 [of "example_params(''q_0'' \<mapsto> 0)" 300 "1 / 100000",
        THEN mp, OF v0, THEN conjunct1]
    by (rule rev_mp)
  moreover have "int_aKt_dV 300 (1 / 100000) example_params \<noteq> Inl ZeroDivisionError"
    using int_aKt_dV_requires_q_0 [of example_params 300 "1 / 100000",
        THEN mp, OF example_params_valid, THEN conjunct2, THEN conjunct1]
    by (simp add: example_params_values)
  moreover have "int_aKt_dV 300 (1 / 100000) example_params = Inr (Fin 0)"
    using int_aKt_dV_requires_q_0 [of example_params 300 "1 / 100000",
        THEN mp, OF example_params_valid, THEN conjunct2, THEN conjunct2]
    by (simp add: example_params_values spec_I_def)
  ultimately show ?thesis by simp
qed

subsection \<open>The parameter \<open>n\<close>\<close>

lemma getitem_n_other: "k \<noteq> ''n'' \<Longrightarrow> getitem (p(''n'' \<mapsto> a)) k = getitem p k"
  by (simp add: getitem_def)

lemma getitem_n_self: "getitem (p(''n'' \<mapsto> a)) ''n'' = Inr a"
  by (simp add: getitem_def)

lemma finite_strain_n: "finite_strain T V (p(''n'' \<mapsto> a)) = finite_strain T V p"
  by (simp add: finite_strain_def getitem_n_other)

lemma int_aKt_dV_n: "int_aKt_dV T V (p(''n'' \<mapsto> a)) = int_aKt_dV T V p"
  by (simp add: int_aKt_dV_def getitem_n_other)

lemma F_cmp_n: "F_cmp T V (p(''n'' \<mapsto> a)) = F_cmp T V p"
  by (simp add: F_cmp_def finite_strain_n getitem_n_other)

lemma F_th_n: "F_th T V (p(''n'' \<mapsto> a)) = F_th T V p"
  by (simp add: F_th_def int_aKt_dV_n getitem_n_other)

lemma grueneisen_parameter_n:
  "grueneisen_parameter P T V (p(''n'' \<mapsto> a)) = grueneisen_parameter P T V p"
  by (simp add: grueneisen_parameter_def getitem_n_other)

lemma pressure_n: "pressure T V (p(''n'' \<mapsto> a)) = pressure T V (p(''n'' \<mapsto> b))"
  by (simp add: pressure_def finite_strain_n grueneisen_parameter_n getitem_n_other
      getitem_n_self)

lemma delta_pressure_n:
  "delta_pressure x P T (p(''n'' \<mapsto> a)) = delta_pressure x P T (p(''n'' \<mapsto> b))"
  by (simp add: delta_pressure_def pressure_n [of T x p a b])

lemma volume_n:
  "volume bracket brentq P T (p(''n'' \<mapsto> a)) = volume bracket brentq P T (p(''n'' \<mapsto> b))"
  by (simp add: volume_def getitem_n_other delta_pressure_n [of _ P T p a b])

lemma helmholtz_free_energy_n:
  "helmholtz_free_energy P T V (p(''n'' \<mapsto> a)) = helmholtz_free_energy P T V p"
  by (simp add: helmholtz_free_energy_def F_cmp_n F_th_n getitem_n_other)

lemma entropy_n: "entropy P T V (p(''n'' \<mapsto> a)) = entropy P T V p"
  by (simp add: entropy_def int_aKt_dV_n getitem_n_other)

lemma check_keys_n:
  "check_keys ks (p(''n'' \<mapsto> a)) = check_keys ks (p(''n'' \<mapsto> b))"
  by (induction ks) auto

text \<open>
  Claim C10. The value stored under \<open>n\<close> is never used: \<open>pressure\<close> reads it and drops
  it, no other method reads it, and \<open>validate_parameters\<close> tests its presence only. Two
  parameter dictionaries that differ in the value of \<open>n\<close> alone give the same result,
  value or exception, for every public method, whatever the bracketing search and the
  root finder are.
\<close>

theorem n_not_load_bearing:
  "pressure T V (p(''n'' \<mapsto> a)) = pressure T V (p(''n'' \<mapsto> b))
   \<and> volume bracket brentq P T (p(''n'' \<mapsto> a)) = volume bracket brentq P T (p(''n'' \<mapsto> b))
   \<and> entropy P T V (p(''n'' \<mapsto> a)) = entropy P T V (p(''n'' \<mapsto> b))
   \<and> helmholtz_free_energy P T V (p(''n'' \<mapsto> a)) = helmholtz_free_energy P T V (p(''n'' \<mapsto> b))
   \<and> internal_energy P T V (p(''n'' \<mapsto> a)) = internal_energy P T V (p(''n'' \<mapsto> b))
   \<and> enthalpy bracket brentq P T V (p(''n'' \<mapsto> a))
       = enthalpy bracket brentq P T V (p(''n'' \<mapsto> b))
   \<and> gibbs_free_energy P T V (p(''n'' \<mapsto> a)) = gibbs_free_energy P T V (p(''n'' \<mapsto> b))
   \<and> grueneisen_parameter P T V (p(''n'' \<mapsto> a)) = grueneisen_parameter P T V (p(''n'' \<mapsto> b))
   \<and> heat_capacity_v P T V (p(''n'' \<mapsto> a)) = heat_capacity_v P T V (p(''n'' \<mapsto> b))
   \<and> isothermal_bulk_modulus P T V (p(''n'' \<mapsto> a))
       = isothermal_bulk_modulus P T V (p(''n'' \<mapsto> b))
   \<and> adiabatic_bulk_modulus P T V (p(''n'' \<mapsto> a))
       = adiabatic_bulk_modulus P T V (p(''n'' \<mapsto> b))
   \<and> shear_modulus P T V (p(''n'' \<mapsto> a)) = shear_modulus P T V (p(''n'' \<mapsto> b))
   \<and> heat_capacity_p P T V (p(''n'' \<mapsto> a)) = heat_capacity_p P T V (p(''n'' \<mapsto> b))
   \<and> thermal_expansivity P T V (p(''n'' \<mapsto> a)) = thermal_expansivity P T V (p(''n'' \<mapsto> b))
   \<and> validate_parameters (p(''n'' \<mapsto> a)) = validate_parameters (p(''n'' \<mapsto> b))"
proof -
  have v: "volume bracket brentq P T (p(''n'' \<mapsto> a)) = volume bracket brentq P T (p(''n'' \<mapsto> b))"
    by (rule volume_n)
  have "enthalpy bracket brentq P T V (p(''n'' \<mapsto> a))
       = enthalpy bracket brentq P T V (p(''n'' \<mapsto> b))"
    by (simp add: enthalpy_def helmholtz_free_energy_n entropy_n v)
  moreover have "internal_energy P T V (p(''n'' \<mapsto> a)) = internal_energy P T V (p(''n'' \<mapsto> b))"
    by (simp add: internal_energy_def helmholtz_free_energy_n entropy_n)
  moreover have "gibbs_free_energy P T V (p(''n'' \<mapsto> a)) = gibbs_free_energy P T V (p(''n'' \<mapsto> b))"
    by (simp add: gibbs_free_energy_def helmholtz_free_energy_n)
  moreover have "heat_capacity_v P T V (p(''n'' \<mapsto> a)) = heat_capacity_v P T V (p(''n'' \<mapsto> b))"
    by (simp add: heat_capacity_v_def getitem_n_other)
  moreover have "validate_parameters (p(''n'' \<mapsto> a)) = validate_parameters (p(''n'' \<mapsto> b))"
    unfolding validate_parameters_def by (rule check_keys_n)
  moreover note v pressure_n [of T V p a b]
  ultimately show ?thesis
    by (simp add: helmholtz_free_energy_n entropy_n grueneisen_parameter_n
        isothermal_bulk_modulus_def adiabatic_bulk_modulus_def shear_modulus_def
        heat_capacity_p_def thermal_expansivity_def)
qed

subsection \<open>The failure of the volume inversion\<close>

text \<open>
  Claim C3, as stated, fails: when the bracketing search finds no sign change, the error
  of \<open>volume\<close> is an instance of the root class \<open>Exception\<close>, not of a kind of its own.
  Here the search is the one that reports no sign change, at a pressure far below
  every pressure of the equation of state.
\<close>

theorem volume_error_kind_counterexample:
  "volume bracket_no_sign_change brentq_midpoint (- 1000000000000000) 300 example_params
     = Inl (Exception cannot_find_volume)
   \<and> \<not> distinct_kind (Exception cannot_find_volume)"
  by (simp add: volume_def getitem_def example_params_def bracket_no_sign_change_def)

text \<open>
  Claim C3, amended. When the bracketing search raises \<open>ValueError\<close> (no sign change
  found), \<open>volume\<close> raises \<open>Exception\<close> with the fixed message
  "Cannot find a volume, perhaps you are outside of the range of validity for the
  equation of state?". A caller can catch it, but its class is the root class, so only
  the message tells it from another error. Any other exception of the search passes
  through unchanged.
\<close>

theorem volume_bracket_failure:
  "getitem params ''V_0'' = Inr V0 \<longrightarrow>
     (bracket (\<lambda>x. delta_pressure x P T params) V0 (1 / 100 * V0) = Inl ValueError \<longrightarrow>
        volume bracket brentq P T params = Inl (Exception cannot_find_volume)
        \<and> \<not> distinct_kind (Exception cannot_find_volume))
   \<and> (bracket (\<lambda>x. delta_pressure x P T params) V0 (1 / 100 * V0) = Inl e \<and> e \<noteq> ValueError \<longrightarrow>
        volume bracket brentq P T params = Inl e)"
  by (cases e) (simp_all add: volume_def)

theorem volume_bracket_failure_witness:
  "volume bracket_no_sign_change brentq_midpoint 0 300 example_params
     = Inl (Exception cannot_find_volume)
   \<and> volume (\<lambda>fn x0 dx. Inl RuntimeError) brentq_midpoint 0 300 example_params
     = Inl RuntimeError"
proof -
  have g: "getitem example_params ''V_0'' = Inr (1 / 100000)"
    by (simp add: getitem_def example_params_def)
  have b: "bracket_no_sign_change (\<lambda>x. delta_pressure x 0 300 example_params) (1 / 100000)
             (1 / 100 * (1 / 100000)) = Inl ValueError"
    by (simp add: bracket_no_sign_change_def)
  have c: "(\<lambda>fn x0 dx. Inl RuntimeError) (\<lambda>x. delta_pressure x 0 300 example_params)
             (1 / 100000 :: real) (1 / 100 * (1 / 100000) :: real) = (Inl RuntimeError :: error + real \<times> real)
           \<and> RuntimeError \<noteq> ValueError"
    by simp
  have "volume bracket_no_sign_change brentq_midpoint 0 300 example_params
     = Inl (Exception cannot_find_volume)"
    using b volume_bracket_failure [where params = example_params and ?V0.0 = "1 / 100000"
        and bracket = bracket_no_sign_change and P = 0 and T = 300 and brentq = brentq_midpoint,
        THEN mp, OF g, THEN conjunct1]
    by simp
  moreover have "volume (\<lambda>fn x0 dx. Inl RuntimeError) brentq_midpoint 0 300 example_params
     = Inl RuntimeError"
    using c volume_bracket_failure [where params = example_params and ?V0.0 = "1 / 100000"
        and bracket = "\<lambda>fn x0 dx. Inl RuntimeError" and P = 0 and T = 300
        and brentq = brentq_midpoint and e = RuntimeError, THEN mp, OF g, THEN conjunct2]
    by simp
  ultimately show ?thesis by (rule conjI)
qed

subsection \<open>Enthalpy and Gibbs free energy\<close>

lemma soft_params_getitem:
  "getitem soft_params ''V_0'' = Inr 1"
  "getitem soft_params ''T_0'' = Inr 300"
  "getitem soft_params ''E_0'' = Inr 0"
  "getitem soft_params ''S_0'' = Inr 0"
  "getitem soft_params ''K_0'' = Inr 0"
  "getitem soft_params ''Kprime_0'' = Inr 4"
  "getitem soft_params ''Kdprime_0'' = Inr 0"
  "getitem soft_params ''n'' = Inr 1"
  "getitem soft_params ''Cv'' = Inr 100"
  "getitem soft_params ''grueneisen_0'' = Inr (3 / 2)"
  "getitem soft_params ''q_0'' = Inr 1"
  by (simp_all add: getitem_def soft_params_def)

lemma soft_params_helmholtz:
  "0 < V \<Longrightarrow> helmholtz_free_energy P 300 V soft_params = Inr (Fin 0)"
  by (simp add: helmholtz_free_energy_def F_cmp_def F_th_def finite_strain_def int_aKt_dV_def
      soft_params_getitem py_truediv_def np_power_def np_log_def)

text \<open>
  Claim C7, as stated, fails for \<open>gibbs_free_energy\<close>: its \<open>P * V\<close> term is the product
  with the volume argument. For a parameter set whose Helmholtz energy is \<open>0\<close> at
  \<open>T = T_0\<close> for every volume, the same pressure and temperature give \<open>1\<close> with the
  volume argument \<open>1\<close> and \<open>2\<close> with the volume argument \<open>2\<close>; a volume found from
  the pressure and the temperature would give the two calls the same result.
\<close>

theorem gibbs_free_energy_volume_counterexample:
  "helmholtz_free_energy 1 300 1 soft_params = Inr (Fin 0)
   \<and> helmholtz_free_energy 1 300 2 soft_params = Inr (Fin 0)
   \<and> gibbs_free_energy 1 300 1 soft_params = Inr (Fin 1)
   \<and> gibbs_free_energy 1 300 2 soft_params = Inr (Fin 2)"
  by (simp add: gibbs_free_energy_def soft_params_helmholtz)

text \<open>
  Claim C7, amended. \<open>enthalpy\<close> computes \<open>F + T * S + P * volume(P, T, params)\<close>: it
  finds the volume again by the inversion and ignores its own volume argument in that
  term, so it fails when the inversion fails. \<open>gibbs_free_energy\<close> computes
  \<open>F + P * V\<close> with the volume argument \<open>V\<close> and never calls \<open>volume\<close>.
\<close>

theorem enthalpy_gibbs_volume_term:
  "(helmholtz_free_energy P T V params = Inr F \<and> entropy P T V params = Inr S \<longrightarrow>
      enthalpy bracket brentq P T V params
        = (case volume bracket brentq P T params of
             Inl e \<Rightarrow> Inl e
           | Inr v \<Rightarrow> Inr (F + Fin T * S + Fin (P * v))))
   \<and> (helmholtz_free_energy P T V params = Inr F \<longrightarrow>
        gibbs_free_energy P T V params = Inr (F + Fin (P * V)))"
  by (simp add: enthalpy_def gibbs_free_energy_def ebind_def)

theorem enthalpy_gibbs_volume_term_witness:
  "enthalpy bracket_around brentq_midpoint 1 300 2 soft_params = Inr (Fin 45001)
   \<and> enthalpy bracket_no_sign_change brentq_midpoint 1 300 2 soft_params
       = Inl (Exception cannot_find_volume)
   \<and> gibbs_free_energy 1 300 2 soft_params = Inr (Fin 2)"
proof -
  have F: "helmholtz_free_energy 1 300 2 soft_params = Inr (Fin 0)"
    by (simp add: soft_params_helmholtz)
  have S: "entropy 1 300 2 soft_params = Inr (Fin 150)"
    by (simp add: entropy_def int_aKt_dV_def soft_params_getitem py_truediv_def np_power_def
        np_log_def)
  have v: "volume bracket_around brentq_midpoint 1 300 soft_params = Inr 1"
    by (simp add: volume_def soft_params_getitem bracket_around_def brentq_midpoint_def)
  have w: "volume bracket_no_sign_change brentq_midpoint 1 300 soft_params
      = Inl (Exception cannot_find_volume)"
    by (simp add: volume_def soft_params_getitem bracket_no_sign_change_def)
  have "enthalpy bracket_around brentq_midpoint 1 300 2 soft_params = Inr (Fin 45001)"
    using enthalpy_gibbs_volume_term [where P = 1 and T = 300 and V = 2
        and params = soft_params and F = "Fin 0" and S = "Fin 150"
        and bracket = bracket_around and brentq = brentq_midpoint, THEN conjunct1] F S v
    by simp
  moreover have "enthalpy bracket_no_sign_change brentq_midpoint 1 300 2 soft_params
       = Inl (Exception cannot_find_volume)"
    using enthalpy_gibbs_volume_term [where P = 1 and T = 300 and V = 2
        and params = soft_params and F = "Fin 0" and S = "Fin 150"
        and bracket = bracket_no_sign_change and brentq = brentq_midpoint, THEN conjunct1] F S w
    by simp
  moreover have "gibbs_free_energy 1 300 2 soft_params = Inr (Fin 2)"
    using enthalpy_gibbs_volume_term [where P = 1 and T = 300 and V = 2
        and params = soft_params and F = "Fin 0", THEN conjunct2] F
    by simp
  ultimately show ?thesis by simp
qed

subsection \<open>The Helmholtz free energy\<close>

lemma int_aKt_dV_pos:
  assumes "validate_parameters params = Inr ()" and "param params ''q_0'' \<noteq> 0"
    and "0 < V / param params ''V_0''"
  shows "int_aKt_dV T V params = Inr (Fin (spec_I V params))"
proof -
  from assms(3) have "param params ''V_0'' \<noteq> 0" by auto
  with assms(2,3) show ?thesis
    by (simp add: int_aKt_dV_def valid_fields [OF assms(1)] py_truediv_def np_power_def
        spec_I_def)
qed

lemma finite_strain_ratio_pos:
  assumes "validate_parameters params = Inr ()" and "0 < V / param params ''V_0''"
  shows "finite_strain T V params = Inr (Fin (spec_finite_strain V params))"
proof -
  from assms(2) have "param params ''V_0'' \<noteq> 0" and "V \<noteq> 0" by auto
  moreover from assms(2) have "0 < param params ''V_0'' / V"
    by (auto simp add: zero_less_divide_iff)
  ultimately show ?thesis
    by (simp add: finite_strain_def valid_fields [OF assms(1)] py_truediv_def np_power_def
        spec_finite_strain_def)
qed

lemma F_cmp_pos:
  assumes "validate_parameters params = Inr ()" and "0 < V / param params ''V_0''"
  shows "F_cmp T V params = Inr (Fin (spec_F_cmp V params))"
  by (simp add: F_cmp_def finite_strain_ratio_pos [OF assms] valid_fields [OF assms(1)]
      spec_F_cmp_def Let_def spec_a3_def spec_a4_def power2_eq_square power3_eq_cube
      power4_eq_xxxx algebra_simps)

lemma F_th_pos:
  assumes "validate_parameters params = Inr ()" and "param params ''q_0'' \<noteq> 0"
    and "0 < V / param params ''V_0''" and "0 < T / param params ''T_0''"
  shows "F_th T V params = Inr (Fin (spec_F_th T V params))"
proof -
  from assms(4) have "param params ''T_0'' \<noteq> 0" by auto
  with assms(4) show ?thesis
    by (simp add: F_th_def int_aKt_dV_pos [OF assms(1,2,3)] valid_fields [OF assms(1)]
        py_truediv_def np_log_def spec_F_th_def)
qed

text \<open>
  Claim C5, as stated, fails: a parameter set with the eleven fields and \<open>q_0 = 0\<close> is
  valid, and at its reference point \<open>helmholtz_free_energy\<close> ends in the
  \<open>ZeroDivisionError\<close> of the thermal-pressure integral instead of returning
  \<open>E_0 - T_0 * S_0\<close>.
\<close>

theorem helmholtz_reference_counterexample:
  "validate_parameters (example_params(''q_0'' \<mapsto> 0)) = Inr ()
   \<and> helmholtz_free_energy 0 300 (1 / 100000) (example_params(''q_0'' \<mapsto> 0))
       = Inl ZeroDivisionError"
  by (simp add: validate_parameters_def expected_keys_def helmholtz_free_energy_def F_cmp_def
      F_th_def finite_strain_def int_aKt_dV_def getitem_def example_params_def py_truediv_def
      np_power_def np_log_def)

text \<open>
  Claim C5, amended. For every parameter set with the eleven fields and \<open>q_0\<close> not zero:
  where \<open>V / V_0 > 0\<close> and \<open>T / T_0 > 0\<close>, \<open>helmholtz_free_energy(P, T, V, params)\<close> is
  \<open>E_0 - T_0 * S_0 + F_cmp(V) + F_th(T, V)\<close>, with \<open>F_cmp\<close> the fourth-order expansion
  \<open>9 * K_0 * V_0 * (f^2/2 + a3 * f^3/6 + a4 * f^4/24)\<close>; and with \<open>V_0\<close> and \<open>T_0\<close> not
  zero, at the reference point \<open>(T_0, V_0)\<close> it is \<open>E_0 - T_0 * S_0\<close> exactly, for every
  pressure argument.
\<close>

theorem helmholtz_free_energy_closed_form:
  "validate_parameters params = Inr () \<and> param params ''q_0'' \<noteq> 0 \<longrightarrow>
     (0 < V / param params ''V_0'' \<and> 0 < T / param params ''T_0'' \<longrightarrow>
        helmholtz_free_energy P T V params
          = Inr (Fin (param params ''E_0'' - param params ''T_0'' * param params ''S_0''
                      + spec_F_cmp V params + spec_F_th T V params)))
   \<and> (param params ''V_0'' \<noteq> 0 \<and> param params ''T_0'' \<noteq> 0 \<longrightarrow>
        helmholtz_free_energy P (param params ''T_0'') (param params ''V_0'') params
          = Inr (Fin (param params ''E_0'' - param params ''T_0'' * param params ''S_0'')))"
proof (intro impI conjI)
  assume a: "validate_parameters params = Inr () \<and> param params ''q_0'' \<noteq> 0"
  then have v: "validate_parameters params = Inr ()" and q: "param params ''q_0'' \<noteq> 0"
    by simp_all
  {
    assume b: "0 < V / param params ''V_0'' \<and> 0 < T / param params ''T_0''"
    then have bV: "0 < V / param params ''V_0''" and bT: "0 < T / param params ''T_0''"
      by simp_all
    show "helmholtz_free_energy P T V params
          = Inr (Fin (param params ''E_0'' - param params ''T_0'' * param params ''S_0''
                      + spec_F_cmp V params + spec_F_th T V params))"
      by (simp add: helmholtz_free_energy_def valid_fields [OF v] F_cmp_pos [OF v bV]
          F_th_pos [OF v q bV bT])
  next
    assume c: "param params ''V_0'' \<noteq> 0 \<and> param params ''T_0'' \<noteq> 0"
    then have cV: "0 < param params ''V_0'' / param params ''V_0''"
      and cT: "0 < param params ''T_0'' / param params ''T_0''"
      by simp_all
    have "spec_F_cmp (param params ''V_0'') params = 0"
      using c by (simp add: spec_F_cmp_def spec_finite_strain_def)
    moreover have "spec_F_th (param params ''T_0'') (param params ''V_0'') params = 0"
      using c by (simp add: spec_F_th_def)
    ultimately show "helmholtz_free_energy P (param params ''T_0'') (param params ''V_0'') params
          = Inr (Fin (param params ''E_0'' - param params ''T_0'' * param params ''S_0''))"
      by (simp add: helmholtz_free_energy_def valid_fields [OF v] F_cmp_pos [OF v cV]
          F_th_pos [OF v q cV cT])
  }
qed

theorem helmholtz_free_energy_closed_form_witness:
  "helmholtz_free_energy 0 300 (1 / 100000) example_params = Inr (Fin 0)
   \<and> helmholtz_free_energy 0 600 (1 / 50000) example_params
       = Inr (Fin (spec_F_cmp (1 / 50000) example_params
                   + spec_F_th 600 (1 / 50000) example_params))"
proof -
  have a: "validate_parameters example_params = Inr () \<and> param example_params ''q_0'' \<noteq> 0"
    by (simp add: example_params_valid example_params_values)
  have b: "0 < (1 / 50000 :: real) / param example_params ''V_0''
      \<and> 0 < (600 :: real) / param example_params ''T_0''"
    by (simp add: example_params_values)
  have c: "param example_params ''V_0'' \<noteq> 0 \<and> param example_params ''T_0'' \<noteq> 0"
    by (simp add: example_params_values)
  have "helmholtz_free_energy 0 300 (1 / 100000) example_params = Inr (Fin 0)"
    using c helmholtz_free_energy_closed_form [of example_params _ _ 0, THEN mp, OF a,
        THEN conjunct2]
    by (simp add: example_params_values)
  moreover have "helmholtz_free_energy 0 600 (1 / 50000) example_params
       = Inr (Fin (spec_F_cmp (1 / 50000) example_params
                   + spec_F_th 600 (1 / 50000) example_params))"
    using b helmholtz_free_energy_closed_form [of example_params "1 / 50000" 600 0, THEN mp,
        OF a, THEN conjunct1]
    by (simp add: example_params_values)
  ultimately show ?thesis by (rule conjI)
qed

subsection \<open>The pressure\<close>

text \<open>
  Claim C2, as stated, fails: the eleven fields and \<open>V > 0\<close> do not make \<open>pressure\<close>
  defined. With \<open>V_0 = 0\<close> the Grueneisen term divides the volume by \<open>V_0\<close> and the
  call ends in \<open>ZeroDivisionError\<close>.
\<close>

theorem pressure_defined_counterexample:
  "validate_parameters (example_params(''V_0'' \<mapsto> 0)) = Inr ()
   \<and> (0 :: real) < 1 / 100000
   \<and> pressure 300 (1 / 100000) (example_params(''V_0'' \<mapsto> 0)) = Inl ZeroDivisionError"
  by (simp add: validate_parameters_def expected_keys_def pressure_def finite_strain_def
      grueneisen_parameter_def getitem_def example_params_def py_truediv_def np_power_def)

text \<open>
  Claim C2, amended. For every parameter set with the eleven fields and \<open>V_0 > 0\<close>, every
  temperature and every volume \<open>V > 0\<close>, \<open>pressure(T, V, params)\<close> raises nothing and
  returns the closed form
  \<open>3 * K_0 * (1 + 2f)^(5/2) * (f + a3 * f^2/2 + a4 * f^3/6) + Cv * (T - T_0) * gamma(V) / V\<close>
  with \<open>f = ((V_0/V)^(2/3) - 1)/2\<close>, \<open>a3 = 3 (K' - 4)\<close>,
  \<open>a4 = 9 (K_0 K'' + K' (K' - 7)) + 143\<close> and \<open>gamma(V) = gamma_0 (V/V_0)^q_0\<close>.
\<close>

theorem pressure_closed_form:
  assumes "validate_parameters params = Inr ()" and "0 < param params ''V_0''" and "0 < V"
  shows "pressure T V params = Inr (Fin (spec_pressure T V params))"
proof -
  have pos: "0 < 1 + 2 * spec_finite_strain V params"
    using assms(2,3) by (simp only: one_plus_two_strain) simp
  have g: "grueneisen_parameter 0 T V params = Inr (Fin (spec_gamma V params))"
    using assms by (intro grueneisen_parameter_pos) simp_all
  show ?thesis
    using pos assms(3)
    by (simp add: pressure_def finite_strain_pos [OF assms] g valid_fields [OF assms(1)]
        np_power_def spec_pressure_def Let_def spec_a3_def spec_a4_def
        power2_eq_square power3_eq_cube algebra_simps)
qed

theorem pressure_closed_form_witness:
  "pressure 300 (1 / 100000) example_params = Inr (Fin 0)"
proof -
  have a: "0 < param example_params ''V_0''" and b: "(0 :: real) < 1 / 100000"
    by (simp_all add: example_params_values)
  show ?thesis
    using pressure_closed_form [OF example_params_valid a b, of 300]
    by (simp add: spec_pressure_def spec_finite_strain_def spec_gamma_def example_params_values)
qed

subsection \<open>The round trip through the volume inversion\<close>

lemma pressure_finite:
  assumes "validate_parameters params = Inr ()" and "0 < param params ''V_0''" and "0 < V"
  shows "pressure T V params = Inr (Fin (spec_pressure T V params))"
proof -
  have "0 < (param params ''V_0'' / V) powr (2 / 3)"
    using assms(2,3) by simp
  then have pos: "0 < 1 + 2 * spec_finite_strain V params"
    by (simp only: one_plus_two_strain)
  have g: "grueneisen_parameter 0 T V params = Inr (Fin (spec_gamma V params))"
    using assms by (intro grueneisen_parameter_pos) simp_all
  show ?thesis
    using pos assms(3)
    by (simp add: pressure_def finite_strain_pos [OF assms] g valid_fields [OF assms(1)]
        np_power_def spec_pressure_def Let_def spec_a3_def spec_a4_def
        power2_eq_square power3_eq_cube algebra_simps)
qed

lemma soft_params_valid: "validate_parameters soft_params = Inr ()"
  by (simp add: validate_parameters_def expected_keys_def soft_params_def)

lemma soft_params_pressure:
  assumes "0 < V"
  shows "pressure 300 V soft_params = Inr (Fin 0)"
proof -
  have v: "param soft_params ''V_0'' = 1" and k: "param soft_params ''K_0'' = 0"
    and t: "param soft_params ''T_0'' = 300"
    by (simp_all add: param_def soft_params_def)
  have "spec_pressure 300 V soft_params = 0"
    by (simp add: spec_pressure_def Let_def k t)
  moreover have "pressure 300 V soft_params = Inr (Fin (spec_pressure 300 V soft_params))"
    using soft_params_valid assms by (intro pressure_finite) (simp_all add: v)
  ultimately show ?thesis by simp
qed

lemma delta_pressure_zero:
  "delta_pressure x P T params = Inr (Fin 0) \<longleftrightarrow> pressure T x params = Inr (Fin P)"
proof (cases "pressure T x params")
  case (Inl e)
  then show ?thesis by (simp add: delta_pressure_def)
next
  case (Inr p)
  then show ?thesis by (cases p) (auto simp add: delta_pressure_def)
qed

text \<open>
  Claim C1, as stated, fails, whatever the bracketing search and the root finder are
  and for every tolerance below \<open>1/3\<close>. \<open>soft_params\<close> has the eleven fields, and at
  \<open>T = T_0 = 300\<close> its pressure is \<open>0\<close> at the volume \<open>1\<close> and at the volume \<open>2\<close>. The
  inversion of the pressure \<open>0\<close> has one result, which cannot be within the tolerance of
  both volumes.
\<close>

theorem round_trip_counterexample:
  "validate_parameters soft_params = Inr ()
   \<and> pressure 300 1 soft_params = Inr (Fin 0)
   \<and> pressure 300 2 soft_params = Inr (Fin 0)
   \<and> \<not> (\<exists>bracket brentq tol v1 v2. tol < 1 / 3
          \<and> volume bracket brentq 0 300 soft_params = Inr v1 \<and> \<bar>v1 - 1\<bar> \<le> tol
          \<and> volume bracket brentq 0 300 soft_params = Inr v2 \<and> \<bar>v2 - 2\<bar> \<le> tol)"
proof (intro conjI notI)
  show "validate_parameters soft_params = Inr ()"
    by (rule soft_params_valid)
  show "pressure 300 1 soft_params = Inr (Fin 0)"
    by (simp add: soft_params_pressure)
  show "pressure 300 2 soft_params = Inr (Fin 0)"
    by (simp add: soft_params_pressure)
next
  assume "\<exists>bracket brentq tol v1 v2. tol < 1 / 3
          \<and> volume bracket brentq 0 300 soft_params = Inr v1 \<and> \<bar>v1 - 1\<bar> \<le> tol
          \<and> volume bracket brentq 0 300 soft_params = Inr v2 \<and> \<bar>v2 - 2\<bar> \<le> tol"
  then obtain bracket :: bracket_fn and brentq :: brentq_fn and tol v1 v2 :: real
    where t: "tol < 1 / 3"
      and a: "volume bracket brentq 0 300 soft_params = Inr v1" "\<bar>v1 - 1\<bar> \<le> tol"
      and b: "volume bracket brentq 0 300 soft_params = Inr v2" "\<bar>v2 - 2\<bar> \<le> tol"
    by blast
  from a(1) b(1) have "v1 = v2" by simp
  with t a(2) b(2) show False by simp
qed

text \<open>
  Claim C1, amended. For every parameter set with the eleven fields and \<open>V_0 > 0\<close>, every
  temperature \<open>T\<close> and every volume \<open>V > 0\<close>, let \<open>P\<close> be \<open>pressure(T, V, params)\<close>. Then
  \<open>V\<close> is a zero of the residual \<open>P - pressure(T, x, params)\<close>. When the bracketing search,
  started at \<open>V_0\<close> with the step \<open>V_0 / 100\<close>, returns an interval, the root finder
  returns on it a volume \<open>v\<close> within the tolerance of a zero of the residual in that
  interval, and \<open>V\<close> is the only volume of that interval whose pressure is \<open>P\<close>, then
  \<open>volume(P, T, params)\<close> returns \<open>v\<close>, and \<open>v\<close> is \<open>V\<close> within the tolerance.
\<close>

theorem round_trip_within_tolerance:
  assumes "validate_parameters params = Inr ()" and "0 < param params ''V_0''" and "0 < V"
    and "bracket (\<lambda>x. delta_pressure x (spec_pressure T V params) T params)
           (param params ''V_0'') (1 / 100 * param params ''V_0'') = Inr (a, b)"
    and "brentq (\<lambda>x. delta_pressure x (spec_pressure T V params) T params) a b = Inr v"
    and "\<exists>x. min a b \<le> x \<and> x \<le> max a b
           \<and> delta_pressure x (spec_pressure T V params) T params = Inr (Fin 0)
           \<and> \<bar>v - x\<bar> \<le> tol"
    and "\<forall>x. min a b \<le> x \<and> x \<le> max a b \<and> pressure T x params = pressure T V params
           \<longrightarrow> x = V"
  shows "pressure T V params = Inr (Fin (spec_pressure T V params))
    \<and> delta_pressure V (spec_pressure T V params) T params = Inr (Fin 0)
    \<and> volume bracket brentq (spec_pressure T V params) T params = Inr v
    \<and> \<bar>v - V\<bar> \<le> tol"
proof -
  have P: "pressure T V params = Inr (Fin (spec_pressure T V params))"
    using assms(1,2,3) by (rule pressure_finite)
  then have z: "delta_pressure V (spec_pressure T V params) T params = Inr (Fin 0)"
    by (simp add: delta_pressure_zero)
  have vol: "volume bracket brentq (spec_pressure T V params) T params = Inr v"
    using assms(4,5) by (simp add: volume_def valid_fields [OF assms(1)])
  from assms(6) obtain x where x: "min a b \<le> x" "x \<le> max a b"
      "delta_pressure x (spec_pressure T V params) T params = Inr (Fin 0)" "\<bar>v - x\<bar> \<le> tol"
    by blast
  from x(3) have "pressure T x params = pressure T V params"
    by (simp add: delta_pressure_zero P)
  with assms(7) x(1,2) have "x = V" by blast
  with x(4) have "\<bar>v - V\<bar> \<le> tol" by simp
  with P z vol show ?thesis by simp
qed

lemma powr_two_thirds_eq_one:
  fixes r :: real
  assumes "0 < r" and "r powr (2 / 3) = 1"
  shows "r = 1"
proof -
  have "(r powr (2 / 3)) powr (3 / 2) = r powr 1"
    by (simp add: powr_powr)
  with assms show ?thesis by simp
qed

lemma powr_two_thirds_le_two:
  fixes r :: real
  assumes "0 < r" and "r \<le> 2"
  shows "r powr (2 / 3) \<le> 2"
proof (cases "r \<le> 1")
  case True
  with assms(1) have "r powr (2 / 3) \<le> 1" by (intro powr_le1) simp_all
  then show ?thesis by simp
next
  case False
  then have "r powr (2 / 3) \<le> r powr 1" by (intro powr_mono) simp_all
  with assms show ?thesis by simp
qed

lemma example_params_pressure_zero_unique:
  assumes "99 / 10000000 \<le> x" and "x \<le> 101 / 10000000"
    and "pressure 300 x example_params = Inr (Fin 0)"
  shows "x = 1 / 100000"
proof -
  define r where "r = (1 / 100000) / x"
  define y where "y = r powr (2 / 3)"
  define f where "f = 1 / 2 * (y - 1)"
  from assms(1) have x: "0 < x" by simp
  then have r: "0 < r" by (simp add: r_def)
  have "r * x = 1 / 100000" using x by (simp add: r_def)
  with assms(1) x have "r * (99 / 10000000) \<le> 1 / 100000"
    using r by (metis mult_left_mono less_imp_le)
  then have r2: "r \<le> 2" by simp
  have y: "0 < y" using r by (simp add: y_def)
  have y2: "y \<le> 2" unfolding y_def using r r2 by (rule powr_two_thirds_le_two)
  have fl: "- (1 / 2) < f" and fu: "f \<le> 1 / 2" using y y2 by (simp_all add: f_def)
  have "0 \<le> (1 / 2 - f) * (1 / 2 + f)"
    using fl fu by (intro mult_nonneg_nonneg) simp_all
  then have f2: "f * f \<le> 1 / 4" by (simp add: algebra_simps)
  have sf: "spec_finite_strain x example_params = f"
    by (simp add: spec_finite_strain_def example_params_values f_def y_def r_def)
  have opt: "1 + 2 * f = y" by (simp add: f_def diff_divide_distrib)
  have "pressure 300 x example_params = Inr (Fin (spec_pressure 300 x example_params))"
    using example_params_valid x by (intro pressure_finite) (simp_all add: example_params_values)
  with assms(3) have "spec_pressure 300 x example_params = 0" by simp
  moreover have "spec_pressure 300 x example_params
      = 750000000000 * y powr (5 / 2) * (f * (1 - 5 / 3 * (f * f)))"
  proof -
    have "spec_pressure 300 x example_params
        = 750000000000 * (1 + 2 * f) powr (5 / 2) * (f - 10 * f ^ 3 / 6)"
      by (simp add: spec_pressure_def Let_def sf spec_a3_def spec_a4_def example_params_values)
    also have "\<dots> = 750000000000 * y powr (5 / 2) * (f * (1 - 5 / 3 * (f * f)))"
      unfolding opt by (simp add: power3_eq_cube algebra_simps)
    finally show ?thesis .
  qed
  ultimately have "y powr (5 / 2) * (f * (1 - 5 / 3 * (f * f))) = 0" by simp
  moreover have "y powr (5 / 2) \<noteq> 0" using y by simp
  ultimately have "f * (1 - 5 / 3 * (f * f)) = 0" by simp
  moreover have "1 - 5 / 3 * (f * f) \<noteq> 0" using f2 by simp
  ultimately have "f = 0" by simp
  then have "r powr (2 / 3) = 1" by (simp add: f_def y_def)
  with r have "r = 1" by (rule powr_two_thirds_eq_one)
  then show ?thesis using x by (simp add: r_def)
qed

theorem round_trip_within_tolerance_witness:
  "pressure 300 (1 / 100000) example_params = Inr (Fin 0)
   \<and> volume bracket_around brentq_midpoint 0 300 example_params = Inr (1 / 100000)
   \<and> \<bar>(1 / 100000 :: real) - 1 / 100000\<bar> \<le> 1 / 1000000000000"
proof -
  have v0: "param example_params ''V_0'' = 1 / 100000"
    by (simp add: example_params_values)
  have p0: "pressure 300 (1 / 100000) example_params = Inr (Fin 0)"
    using pressure_finite [OF example_params_valid, of "1 / 100000" 300]
    by (simp add: spec_pressure_def spec_finite_strain_def spec_gamma_def example_params_values)
  have sp: "spec_pressure 300 (1 / 100000) example_params = 0"
    by (simp add: spec_pressure_def spec_finite_strain_def spec_gamma_def example_params_values)
  have h1: "0 < param example_params ''V_0''" and h2: "(0 :: real) < 1 / 100000"
    by (simp_all add: v0)
  have h3: "bracket_around
      (\<lambda>x. delta_pressure x (spec_pressure 300 (1 / 100000) example_params) 300 example_params)
      (param example_params ''V_0'') (1 / 100 * param example_params ''V_0'')
      = Inr (99 / 10000000, 101 / 10000000)"
    by (simp add: bracket_around_def v0)
  have h4: "brentq_midpoint
      (\<lambda>x. delta_pressure x (spec_pressure 300 (1 / 100000) example_params) 300 example_params)
      (99 / 10000000) (101 / 10000000) = Inr (1 / 100000)"
    by (simp add: brentq_midpoint_def)
  have h5: "\<exists>x. min (99 / 10000000) (101 / 10000000) \<le> x
      \<and> x \<le> max (99 / 10000000) (101 / 10000000)
      \<and> delta_pressure x (spec_pressure 300 (1 / 100000) example_params) 300 example_params
          = Inr (Fin 0)
      \<and> \<bar>1 / 100000 - x\<bar> \<le> 1 / 1000000000000"
    by (rule exI [of _ "1 / 100000"]) (simp add: sp delta_pressure_zero p0)
  have h6: "\<forall>x. min (99 / 10000000) (101 / 10000000) \<le> x
      \<and> x \<le> max (99 / 10000000) (101 / 10000000)
      \<and> pressure 300 x example_params = pressure 300 (1 / 100000) example_params
      \<longrightarrow> x = 1 / 100000"
    using example_params_pressure_zero_unique by (simp add: p0)
  show ?thesis
    using round_trip_within_tolerance [where params = example_params and V = "1 / 100000"
        and T = 300 and bracket = bracket_around and brentq = brentq_midpoint
        and a = "99 / 10000000" and b = "101 / 10000000" and v = "1 / 100000"
        and tol = "1 / 1000000000000", OF example_params_valid h1 h2 h3 h4 h5 h6]
    by (simp add: sp)
qed

end
